theory Spec2Isabelle
  imports Main "HOL-Library.AList"
begin

section \<open>PHP values and arrays\<close>

text \<open>
  The value snapshots handled by the audit log are PHP arrays: ordered maps from keys to
  values that may themselves be arrays. An array is an association list in insertion
  order; \<open>map_of\<close> reads a key, \<open>AList.update\<close> is the assignment \<open>$a[$k] = $v\<close>
  (an existing key keeps its position, a new key is appended). Keys are strings, an
  integer key being its decimal form.
\<close>

datatype val = VNull | VBool bool | VInt int | VStr string | VArr "(string \<times> val) list"

type_synonym php_array = "(string \<times> val) list"

text \<open>\<open>isset($a[$k])\<close>: the key exists and its value is not \<open>null\<close>.\<close>

definition isset_key :: "php_array \<Rightarrow> string \<Rightarrow> bool" where
  "isset_key a k = (case map_of a k of None \<Rightarrow> False | Some VNull \<Rightarrow> False | Some _ \<Rightarrow> True)"

section \<open>AuditLogService\<close>

record audit_log =
  al_id :: nat
  al_user_id :: "nat option"
  al_action :: string
  al_resource :: string
  al_resource_id :: "int option"
  al_old_values :: "php_array option"
  al_new_values :: "php_array option"
  al_ip_address :: "string option"
  al_user_agent :: "string option"

text \<open>The optional keys of the \<open>$data\<close> argument of \<open>AuditLogService::log\<close>.\<close>

record log_data =
  d_user_id :: "nat option"
  d_old_values :: "php_array option"
  d_new_values :: "php_array option"
  d_ip_address :: "string option"
  d_user_agent :: "string option"

definition no_data :: log_data where
  "no_data = \<lparr>d_user_id = None, d_old_values = None, d_new_values = None,
     d_ip_address = None, d_user_agent = None\<rparr>"

text \<open>What \<open>auth()\<close> and \<open>request()\<close> answer during the current request.\<close>

record request_context =
  auth_id :: "nat option"
  request_ip :: "string option"
  request_userAgent :: "string option"

text \<open>\<open>$a ?? $b\<close> on nullable values.\<close>

definition coalesce :: "'a option \<Rightarrow> 'a option \<Rightarrow> 'a option" where
  "coalesce a b = (case a of Some x \<Rightarrow> Some x | None \<Rightarrow> b)"

text \<open>\<open>AuditLog::create\<close>: the table is the list of its rows, the new row gets the next id.\<close>

definition next_id :: "nat list \<Rightarrow> nat" where
  "next_id ids = Suc (fold max ids 0)"

definition AuditLogService_log ::
  "request_context \<Rightarrow> string \<Rightarrow> string \<Rightarrow> int option \<Rightarrow> log_data \<Rightarrow> audit_log list
    \<Rightarrow> audit_log \<times> audit_log list" where
  "AuditLogService_log ctx action resource resourceId data tbl =
     (let row = \<lparr>al_id = next_id (map al_id tbl),
                 al_user_id = coalesce (d_user_id data) (auth_id ctx),
                 al_action = action,
                 al_resource = resource,
                 al_resource_id = resourceId,
                 al_old_values = d_old_values data,
                 al_new_values = d_new_values data,
                 al_ip_address = coalesce (d_ip_address data) (request_ip ctx),
                 al_user_agent = coalesce (d_user_agent data) (request_userAgent ctx)\<rparr>
      in (row, tbl @ [row]))"

definition REDACTED :: val where
  "REDACTED = VStr ''[REDACTED]''"

definition sensitiveFields :: "string list" where
  "sensitiveFields = [''password'', ''password_confirmation'', ''current_password'',
     ''new_password'', ''token'', ''api_token'', ''remember_token'', ''secret'']"

text \<open>One turn of the \<open>foreach\<close> of \<open>sanitizeValues\<close>.\<close>

definition redact_field :: "string \<Rightarrow> php_array \<Rightarrow> php_array" where
  "redact_field field vs = (if isset_key vs field then AList.update field REDACTED vs else vs)"

definition sanitizeValues :: "php_array \<Rightarrow> php_array" where
  "sanitizeValues vs = fold redact_field sensitiveFields vs"

text \<open>
  The wrappers take an optional \<open>Request\<close>; \<open>$request?->ip() ?? request()->ip()\<close> is the
  given request's address when there is one.
\<close>

record http_client =
  client_ip :: "string option"
  client_userAgent :: "string option"

definition ip_of :: "request_context \<Rightarrow> http_client option \<Rightarrow> string option" where
  "ip_of ctx r = coalesce (case r of None \<Rightarrow> None | Some c \<Rightarrow> client_ip c) (request_ip ctx)"

definition userAgent_of :: "request_context \<Rightarrow> http_client option \<Rightarrow> string option" where
  "userAgent_of ctx r =
     coalesce (case r of None \<Rightarrow> None | Some c \<Rightarrow> client_userAgent c) (request_userAgent ctx)"

definition logCreate ::
  "request_context \<Rightarrow> string \<Rightarrow> int \<Rightarrow> php_array \<Rightarrow> http_client option \<Rightarrow> audit_log list
    \<Rightarrow> audit_log \<times> audit_log list" where
  "logCreate ctx resource resourceId newValues r tbl =
     AuditLogService_log ctx ''create'' resource (Some resourceId)
       (no_data\<lparr>d_new_values := Some (sanitizeValues newValues),
                 d_ip_address := ip_of ctx r, d_user_agent := userAgent_of ctx r\<rparr>) tbl"

definition logUpdate ::
  "request_context \<Rightarrow> string \<Rightarrow> int \<Rightarrow> php_array \<Rightarrow> php_array \<Rightarrow> http_client option
    \<Rightarrow> audit_log list \<Rightarrow> audit_log \<times> audit_log list" where
  "logUpdate ctx resource resourceId oldValues newValues r tbl =
     AuditLogService_log ctx ''update'' resource (Some resourceId)
       (no_data\<lparr>d_old_values := Some (sanitizeValues oldValues),
                 d_new_values := Some (sanitizeValues newValues),
                 d_ip_address := ip_of ctx r, d_user_agent := userAgent_of ctx r\<rparr>) tbl"

definition logDelete ::
  "request_context \<Rightarrow> string \<Rightarrow> int \<Rightarrow> php_array \<Rightarrow> http_client option \<Rightarrow> audit_log list
    \<Rightarrow> audit_log \<times> audit_log list" where
  "logDelete ctx resource resourceId oldValues r tbl =
     AuditLogService_log ctx ''delete'' resource (Some resourceId)
       (no_data\<lparr>d_old_values := Some (sanitizeValues oldValues),
                 d_ip_address := ip_of ctx r, d_user_agent := userAgent_of ctx r\<rparr>) tbl"

section \<open>AuditLogger middleware\<close>

record request =
  rq_user :: "nat option"
  rq_method :: string
  rq_path :: string
  rq_segments :: "string list"
  rq_route_id :: "string option"
  rq_route_user :: "string option"
  rq_route_role :: "string option"
  rq_all :: php_array
  rq_ip :: "string option"
  rq_userAgent :: "string option"

record response =
  rs_status :: int
  rs_content :: string

text \<open>
  PHP's built-in conversions used by the middleware: the cast \<open>(int)\<close> and
  \<open>json_decode($s, true)\<close>. They belong to the language, so the model takes them as
  parameters.
\<close>

record php_builtins =
  intval :: "val \<Rightarrow> int"
  json_decode :: "string \<Rightarrow> val"

definition loggableMethods :: "string list" where
  "loggableMethods = [''POST'', ''PUT'', ''PATCH'', ''DELETE'']"

definition excludedRoutes :: "string list" where
  "excludedRoutes = [''api/auth/login'', ''api/auth/logout'', ''api/auth/register'']"

fun str_starts_with :: "string \<Rightarrow> string \<Rightarrow> bool" where
  "str_starts_with s [] = True"
| "str_starts_with [] (c # cs) = False"
| "str_starts_with (x # xs) (c # cs) = (x = c \<and> str_starts_with xs cs)"

definition shouldLog :: "request \<Rightarrow> response \<Rightarrow> bool" where
  "shouldLog rq rs =
     (if rq_user rq = None then False
      else if rq_method rq \<notin> set loggableMethods then False
      else if list_ex (str_starts_with (rq_path rq)) excludedRoutes then False
      else if rs_status rs < 200 \<or> rs_status rs \<ge> 300 then False
      else True)"

definition lower_char :: "char \<Rightarrow> char" where
  "lower_char c =
     (let n = (of_char c :: nat) in if 65 \<le> n \<and> n \<le> 90 then char_of (n + 32) else c)"

definition strtolower :: "string \<Rightarrow> string" where
  "strtolower s = map lower_char s"

definition determineAction :: "request \<Rightarrow> string" where
  "determineAction rq =
     (if rq_method rq = ''POST'' then ''create''
      else if rq_method rq = ''PUT'' \<or> rq_method rq = ''PATCH'' then ''update''
      else if rq_method rq = ''DELETE'' then ''delete''
      else strtolower (rq_method rq))"

definition determineResource :: "request \<Rightarrow> string" where
  "determineResource rq =
     (let segments = rq_segments rq;
          segments = (case segments of s # rest \<Rightarrow> if s = ''api'' then rest else segments
                      | [] \<Rightarrow> segments)
      in case segments of s # _ \<Rightarrow> s | [] \<Rightarrow> ''unknown'')"

text \<open>Truthiness of a PHP string: every string but \<open>""\<close> and \<open>"0"\<close>.\<close>

definition truthy_string :: "string \<Rightarrow> bool" where
  "truthy_string s = (s \<noteq> [] \<and> s \<noteq> ''0'')"

definition val_get :: "val \<Rightarrow> string \<Rightarrow> val" where
  "val_get v k = (case v of VArr a \<Rightarrow> (case map_of a k of Some x \<Rightarrow> x | None \<Rightarrow> VNull)
                  | _ \<Rightarrow> VNull)"

definition nested_id :: "val \<Rightarrow> string \<Rightarrow> val" where
  "nested_id data key = val_get (val_get (val_get data ''data'') key) ''id''"

definition determineResourceId :: "php_builtins \<Rightarrow> request \<Rightarrow> response \<Rightarrow> int option" where
  "determineResourceId php rq rs =
     (let routeId = coalesce (rq_route_id rq) (coalesce (rq_route_user rq) (rq_route_role rq))
      in case (case routeId of Some s \<Rightarrow> if truthy_string s then Some s else None
               | None \<Rightarrow> None) of
           Some s \<Rightarrow> Some (intval php (VStr s))
         | None \<Rightarrow>
             if rq_method rq = ''POST'' \<and> truthy_string (rs_content rs) then
               (let data = json_decode php (rs_content rs) in
                if val_get (val_get data ''data'') ''id'' \<noteq> VNull
                then Some (intval php (val_get (val_get data ''data'') ''id''))
                else (case filter (\<lambda>key. nested_id data key \<noteq> VNull)
                             [''user'', ''role'', ''permission'', ''setting''] of
                        key # _ \<Rightarrow> Some (intval php (nested_id data key))
                      | [] \<Rightarrow> None))
             else None)"

definition sanitizeRequestData :: "php_array \<Rightarrow> php_array" where
  "sanitizeRequestData data = fold redact_field sensitiveFields data"

definition context_of :: "request \<Rightarrow> request_context" where
  "context_of rq = \<lparr>auth_id = rq_user rq, request_ip = rq_ip rq,
     request_userAgent = rq_userAgent rq\<rparr>"

definition logAction ::
  "php_builtins \<Rightarrow> request \<Rightarrow> response \<Rightarrow> audit_log list \<Rightarrow> audit_log list" where
  "logAction php rq rs tbl =
     snd (AuditLogService_log (context_of rq) (determineAction rq) (determineResource rq)
            (determineResourceId php rq rs)
            (no_data\<lparr>d_ip_address := rq_ip rq, d_user_agent := rq_userAgent rq,
                      d_new_values := Some (sanitizeRequestData (rq_all rq))\<rparr>) tbl)"

section \<open>The dashboard's auth store and guards\<close>

record auth_state =
  as_user :: "nat option"
  as_token :: "string option"
  as_permissions :: "string list"

definition hasPermission :: "auth_state \<Rightarrow> string \<Rightarrow> bool" where
  "hasPermission st permission = (permission \<in> set (as_permissions st))"

definition hasAnyPermission :: "auth_state \<Rightarrow> string list \<Rightarrow> bool" where
  "hasAnyPermission st permissions =
     (let userPermissions = as_permissions st
      in list_ex (\<lambda>p. p \<in> set userPermissions) permissions)"

definition hasAllPermissions :: "auth_state \<Rightarrow> string list \<Rightarrow> bool" where
  "hasAllPermissions st permissions =
     (let userPermissions = as_permissions st
      in list_all (\<lambda>p. p \<in> set userPermissions) permissions)"

text \<open>
  The access decision shared by the \<open>Can\<close> component and \<open>ProtectedRoute\<close> (after
  authentication): a single \<open>permission\<close> prop, else a \<open>permissions\<close> list prop read
  only when it is not empty, else access.
\<close>

record guard_props =
  gp_permission :: "string option"
  gp_permissions :: "string list option"
  gp_requireAll :: bool

definition hasAccess :: "auth_state \<Rightarrow> guard_props \<Rightarrow> bool" where
  "hasAccess st props =
     (case (case gp_permission props of Some p \<Rightarrow> if p \<noteq> [] then Some p else None
            | None \<Rightarrow> None) of
        Some p \<Rightarrow> hasPermission st p
      | None \<Rightarrow>
          (case gp_permissions props of
             Some ps \<Rightarrow>
               if length ps > 0
               then (if gp_requireAll props then hasAllPermissions st ps
                     else hasAnyPermission st ps)
               else True
           | None \<Rightarrow> True))"

section \<open>The relational store\<close>

text \<open>
  A table is the list of its rows, and a query answers in table order. Ids are the
  unsigned auto-increment keys of the store. The pivot tables hold pairs:
  \<open>role_user\<close> rows are \<open>(role_id, user_id)\<close>, \<open>permission_role\<close> rows are
  \<open>(role_id, permission_id)\<close>. Timestamps that no operation below reads
  (\<open>created_at\<close>, \<open>updated_at\<close>) are left out. The store compares strings
  (\<open>where('name', ...)\<close>, \<open>where('email', ...)\<close>) exactly, and enforces no
  constraint of its own: the uniqueness and existence checks are the ones the services
  and requests make. Where a statement needs ids to be a primary key, it says so.
\<close>

record user_row =
  u_id :: nat
  u_name :: string
  u_email :: string
  u_password :: string
  u_avatar :: "string option"
  u_is_active :: bool
  u_email_verified_at :: "nat option"
  u_deleted_at :: "nat option"

record role_row =
  r_id :: nat
  r_name :: string
  r_description :: "string option"
  r_is_system :: bool

record permission_row =
  p_id :: nat
  p_name :: string
  p_description :: "string option"
  p_module :: string

record db =
  users :: "user_row list"
  roles :: "role_row list"
  permissions :: "permission_row list"
  role_user :: "(nat \<times> nat) list"
  permission_role :: "(nat \<times> nat) list"
  audit_logs :: "audit_log list"

datatype error =
    ModelNotFoundException string
  | ValidationException "(string \<times> string list) list"
  | PhpError string

type_synonym 'a result = "(error + 'a) \<times> db"

text \<open>
  \<open>DB::transaction\<close>: the closure runs on the store; when it throws, what it wrote is
  rolled back and the exception is thrown on.
\<close>

definition transaction :: "db \<Rightarrow> (db \<Rightarrow> 'a result) \<Rightarrow> 'a result" where
  "transaction d body = (case body d of (Inl e, _) \<Rightarrow> (Inl e, d) | (Inr r, d') \<Rightarrow> (Inr r, d'))"

text \<open>\<open>Role::find\<close>, and \<open>User::find\<close> under the soft-delete scope.\<close>

definition Role_find :: "db \<Rightarrow> nat \<Rightarrow> role_row option" where
  "Role_find d i = find (\<lambda>r. r_id r = i) (roles d)"

definition User_find :: "db \<Rightarrow> nat \<Rightarrow> user_row option" where
  "User_find d i = find (\<lambda>u. u_id u = i \<and> u_deleted_at u = None) (users d)"

text \<open>The relations \<open>$role->permissions\<close>, \<open>$role->users()\<close> and \<open>$user->roles\<close>.\<close>

definition role_permissions :: "db \<Rightarrow> nat \<Rightarrow> permission_row list" where
  "role_permissions d rid =
     [p. (r, pid) \<leftarrow> permission_role d, r = rid, p \<leftarrow> permissions d, p_id p = pid]"

definition role_users :: "db \<Rightarrow> nat \<Rightarrow> user_row list" where
  "role_users d rid =
     [u. (r, uid) \<leftarrow> role_user d, r = rid, u \<leftarrow> users d, u_id u = uid, u_deleted_at u = None]"

definition user_roles :: "db \<Rightarrow> nat \<Rightarrow> role_row list" where
  "user_roles d uid = [r. (rid, u) \<leftarrow> role_user d, u = uid, r \<leftarrow> roles d, r_id r = rid]"

text \<open>
  \<open>Collection::unique($key)\<close> keeps, in order, the first item of every key value; the
  same pass orders the ids given to \<open>sync\<close>.
\<close>

fun unique_from :: "('a \<Rightarrow> 'k) \<Rightarrow> 'k list \<Rightarrow> 'a list \<Rightarrow> 'a list" where
  "unique_from f seen [] = []"
| "unique_from f seen (x # xs) =
     (if f x \<in> set seen then unique_from f seen xs
      else x # unique_from f (seen @ [f x]) xs)"

definition unique :: "('a \<Rightarrow> 'k) \<Rightarrow> 'a list \<Rightarrow> 'a list" where
  "unique f xs = unique_from f [] xs"

text \<open>
  \<open>sync($ids)\<close> on a many-to-many relation of one parent: pivot rows of the parent whose
  other id is not listed are detached, listed ids not yet attached are attached.
\<close>

definition sync_permissions :: "nat \<Rightarrow> nat list \<Rightarrow> (nat \<times> nat) list \<Rightarrow> (nat \<times> nat) list" where
  "sync_permissions rid ids pivot =
     (let current = [pid. (r, pid) \<leftarrow> pivot, r = rid]
      in filter (\<lambda>(r, pid). \<not> (r = rid \<and> pid \<notin> set ids)) pivot
         @ [(rid, pid). pid \<leftarrow> unique id ids, pid \<notin> set current])"

definition sync_roles :: "nat \<Rightarrow> nat list \<Rightarrow> (nat \<times> nat) list \<Rightarrow> (nat \<times> nat) list" where
  "sync_roles uid ids pivot =
     (let current = [rid. (rid, u) \<leftarrow> pivot, u = uid]
      in filter (\<lambda>(rid, u). \<not> (u = uid \<and> rid \<notin> set ids)) pivot
         @ [(rid, uid). rid \<leftarrow> unique id ids, rid \<notin> set current])"

section \<open>RoleService\<close>

record role_data =
  rd_name :: string
  rd_description :: "string option"
  rd_is_system :: "bool option"
  rd_permission_ids :: "nat list option"

text \<open>A role as returned with \<open>load('permissions')\<close>.\<close>

type_synonym loaded_role = "role_row \<times> permission_row list"

definition load_permissions :: "db \<Rightarrow> role_row \<Rightarrow> loaded_role" where
  "load_permissions d role = (role, role_permissions d (r_id role))"

definition RoleService_validatePermissionIds :: "nat list \<Rightarrow> db \<Rightarrow> error + bool" where
  "RoleService_validatePermissionIds permissionIds d =
     (if permissionIds = [] then Inr True
      else
        (let existingCount = length (filter (\<lambda>p. p_id p \<in> set permissionIds) (permissions d))
         in if existingCount \<noteq> length permissionIds
            then Inl (ValidationException
                   [(''permission_ids'', [''One or more permission IDs are invalid.''])])
            else Inr True))"

definition createRole :: "role_data \<Rightarrow> db \<Rightarrow> loaded_role result" where
  "createRole data d =
     (if list_ex (\<lambda>r. r_name r = rd_name data) (roles d)
      then (Inl (ValidationException [(''name'', [''A role with this name already exists.''])]), d)
      else transaction d (\<lambda>d0.
        (let role = \<lparr>r_id = next_id (map r_id (roles d0)),
                     r_name = rd_name data,
                     r_description = rd_description data,
                     r_is_system = (case rd_is_system data of Some b \<Rightarrow> b | None \<Rightarrow> False)\<rparr>;
             d1 = d0\<lparr>roles := roles d0 @ [role]\<rparr>
         in case rd_permission_ids data of
              Some (i # ids) \<Rightarrow>
                (case RoleService_validatePermissionIds (i # ids) d1 of
                   Inl e \<Rightarrow> (Inl e, d1)
                 | Inr _ \<Rightarrow>
                     (let d2 = d1\<lparr>permission_role :=
                                   sync_permissions (r_id role) (i # ids) (permission_role d1)\<rparr>
                      in (Inr (load_permissions d2 role), d2)))
            | _ \<Rightarrow> (Inr (load_permissions d1 role), d1))))"

definition hasAssignedUsers :: "nat \<Rightarrow> db \<Rightarrow> error + bool" where
  "hasAssignedUsers roleId d =
     (case Role_find d roleId of
        None \<Rightarrow> Inl (ModelNotFoundException ''Role'')
      | Some role \<Rightarrow> Inr (length (role_users d (r_id role)) > 0))"

definition deleteRole :: "nat \<Rightarrow> db \<Rightarrow> bool result" where
  "deleteRole i d =
     (case Role_find d i of
        None \<Rightarrow> (Inl (ModelNotFoundException ''Role''), d)
      | Some role \<Rightarrow>
          (case hasAssignedUsers i d of
             Inl e \<Rightarrow> (Inl e, d)
           | Inr True \<Rightarrow>
               (Inl (ValidationException
                  [(''role'', [''Cannot delete role that has assigned users.''])]), d)
           | Inr False \<Rightarrow>
               transaction d (\<lambda>d0.
                 (let d1 = d0\<lparr>permission_role :=
                               filter (\<lambda>(r, pid). r \<noteq> r_id role) (permission_role d0)\<rparr>;
                      d2 = d1\<lparr>roles := filter (\<lambda>r. r_id r \<noteq> r_id role) (roles d1)\<rparr>
                  in (Inr True, d2)))))"

definition RoleService_assignPermissions :: "nat \<Rightarrow> nat list \<Rightarrow> db \<Rightarrow> loaded_role result" where
  "RoleService_assignPermissions roleId permissionIds d =
     (case Role_find d roleId of
        None \<Rightarrow> (Inl (ModelNotFoundException ''Role''), d)
      | Some role \<Rightarrow>
          (case RoleService_validatePermissionIds permissionIds d of
             Inl e \<Rightarrow> (Inl e, d)
           | Inr _ \<Rightarrow>
               (let d1 = d\<lparr>permission_role :=
                             sync_permissions (r_id role) permissionIds (permission_role d)\<rparr>
                in case Role_find d1 (r_id role) of
                     None \<Rightarrow> (Inl (PhpError ''Call to a member function load() on null''), d1)
                   | Some fresh \<Rightarrow> (Inr (load_permissions d1 fresh), d1))))"

section \<open>PermissionService and the permission cache\<close>

text \<open>
  The cache maps a key to a value and the time at which the entry expires; the store and
  the cache together are the state that outlives a request. The clock is passed in.
\<close>

type_synonym cache = "string \<Rightarrow> (nat \<times> string list) option"

record world =
  w_db :: db
  w_cache :: cache

definition CACHE_TTL :: nat where
  "CACHE_TTL = 3600"

definition Cache_get :: "cache \<Rightarrow> nat \<Rightarrow> string \<Rightarrow> string list option" where
  "Cache_get c now key =
     (case c key of Some (expires, v) \<Rightarrow> if now < expires then Some v else None
      | None \<Rightarrow> None)"

definition Cache_remember ::
  "cache \<Rightarrow> nat \<Rightarrow> string \<Rightarrow> nat \<Rightarrow> string list \<Rightarrow> string list \<times> cache" where
  "Cache_remember c now key ttl computed =
     (case Cache_get c now key of
        Some v \<Rightarrow> (v, c)
      | None \<Rightarrow> (computed, c(key \<mapsto> (now + ttl, computed))))"

definition Cache_forget :: "cache \<Rightarrow> string \<Rightarrow> cache" where
  "Cache_forget c key = c(key := None)"

definition digit :: "nat \<Rightarrow> char" where
  "digit n = char_of (48 + n)"

fun string_of_nat :: "nat \<Rightarrow> string" where
  "string_of_nat n =
     (if n < 10 then [digit n] else string_of_nat (n div 10) @ [digit (n mod 10)])"

declare string_of_nat.simps [simp del]

definition getUserPermissionsCacheKey :: "nat \<Rightarrow> string" where
  "getUserPermissionsCacheKey userId = ''user_permissions:'' @ string_of_nat userId"

definition getUserPermissions :: "db \<Rightarrow> user_row \<Rightarrow> permission_row list" where
  "getUserPermissions d user =
     unique p_id (concat (map (\<lambda>r. role_permissions d (r_id r)) (user_roles d (u_id user))))"

text \<open>\<open>User::getAllPermissions\<close> is the same pipeline without the final reindexing.\<close>

definition getAllPermissions :: "db \<Rightarrow> user_row \<Rightarrow> permission_row list" where
  "getAllPermissions d user =
     unique p_id (concat (map (\<lambda>r. role_permissions d (r_id r)) (user_roles d (u_id user))))"

text \<open>
  \<open>in_array($needle, $haystack)\<close> without the strict flag compares with \<open>==\<close>. On two
  strings \<open>==\<close> compares numerically when both are numeric strings (\<open>"1e1" == "10"\<close>)
  and byte by byte otherwise. Every numeric string holds a decimal digit, so when one of
  the two strings holds none the comparison is equality of strings; what \<open>==\<close> answers
  on two strings that both hold a digit belongs to the language and is a parameter of
  the model.
\<close>

definition has_digit :: "string \<Rightarrow> bool" where
  "has_digit s = list_ex (\<lambda>c. c \<in> set ''0123456789'') s"

definition loose_eq :: "(string \<Rightarrow> string \<Rightarrow> bool) \<Rightarrow> string \<Rightarrow> string \<Rightarrow> bool" where
  "loose_eq numeric_eq a b = (if has_digit a \<and> has_digit b then numeric_eq a b else a = b)"

definition in_array :: "(string \<Rightarrow> string \<Rightarrow> bool) \<Rightarrow> string \<Rightarrow> string list \<Rightarrow> bool" where
  "in_array numeric_eq needle haystack = list_ex (loose_eq numeric_eq needle) haystack"

definition userHasPermission ::
  "(string \<Rightarrow> string \<Rightarrow> bool) \<Rightarrow> nat \<Rightarrow> user_row \<Rightarrow> string \<Rightarrow> world \<Rightarrow> bool \<times> world" where
  "userHasPermission numeric_eq now user permission w =
     (let cacheKey = getUserPermissionsCacheKey (u_id user);
          (names, c) = Cache_remember (w_cache w) now cacheKey CACHE_TTL
                         (map p_name (getUserPermissions (w_db w) user))
      in (in_array numeric_eq permission names, w\<lparr>w_cache := c\<rparr>))"

definition clearUserPermissionsCache :: "nat \<Rightarrow> cache \<Rightarrow> cache" where
  "clearUserPermissionsCache userId c = Cache_forget c (getUserPermissionsCacheKey userId)"

definition clearRoleUsersPermissionsCache :: "nat \<Rightarrow> world \<Rightarrow> world" where
  "clearRoleUsersPermissionsCache roleId w =
     (let userIds = [uid. (r, uid) \<leftarrow> role_user (w_db w), r = roleId]
      in w\<lparr>w_cache := fold clearUserPermissionsCache userIds (w_cache w)\<rparr>)"

section \<open>RoleController\<close>

record 'a json_response =
  jr_status :: int
  jr_success :: bool
  jr_message :: string
  jr_data :: "'a option"
  jr_errors :: "(string \<times> string list) list option"
  jr_error_code :: "string option"

definition ok_response :: "int \<Rightarrow> string \<Rightarrow> 'a option \<Rightarrow> 'a json_response" where
  "ok_response st msg data = \<lparr>jr_status = st, jr_success = True, jr_message = msg,
     jr_data = data, jr_errors = None, jr_error_code = None\<rparr>"

definition not_found_response :: "string \<Rightarrow> 'a json_response" where
  "not_found_response msg = \<lparr>jr_status = 404, jr_success = False, jr_message = msg,
     jr_data = None, jr_errors = None, jr_error_code = Some ''NOT_FOUND''\<rparr>"

definition validation_response :: "(string \<times> string list) list \<Rightarrow> 'a json_response" where
  "validation_response errs = \<lparr>jr_status = 422, jr_success = False,
     jr_message = ''Validation failed'', jr_data = None, jr_errors = Some errs,
     jr_error_code = Some ''VALIDATION_ERROR''\<rparr>"

text \<open>The fallback of \<open>bootstrap/app.php\<close> for any other throwable.\<close>

definition internal_response :: "string \<Rightarrow> 'a json_response" where
  "internal_response msg = \<lparr>jr_status = 500, jr_success = False, jr_message = msg,
     jr_data = None, jr_errors = None, jr_error_code = Some ''INTERNAL_SERVER_ERROR''\<rparr>"

definition RoleController_destroy :: "nat \<Rightarrow> world \<Rightarrow> unit json_response \<times> world" where
  "RoleController_destroy role w =
     (case deleteRole role (w_db w) of
        (Inr _, d) \<Rightarrow> (ok_response 200 ''Role deleted successfully.'' None, w\<lparr>w_db := d\<rparr>)
      | (Inl (ModelNotFoundException _), d) \<Rightarrow>
          (not_found_response ''Role not found.'', w\<lparr>w_db := d\<rparr>)
      | (Inl (ValidationException errs), d) \<Rightarrow>
          (\<lparr>jr_status = 422, jr_success = False,
            jr_message = (case map_of errs ''role'' of Some (m # _) \<Rightarrow> m
                          | _ \<Rightarrow> ''Cannot delete role.''),
            jr_data = None, jr_errors = None, jr_error_code = Some ''VALIDATION_ERROR''\<rparr>,
           w\<lparr>w_db := d\<rparr>)
      | (Inl (PhpError msg), d) \<Rightarrow> (internal_response msg, w\<lparr>w_db := d\<rparr>))"

text \<open>
  The inline \<open>$request->validate\<close> of \<open>assignPermissions\<close>: \<open>required\<close> rejects an empty
  array, \<open>exists:permissions,id\<close> is checked for every element. The message texts come
  from the framework's language files; the model records, per failing attribute, the
  rule that failed.
\<close>

definition validate_permission_ids :: "nat list \<Rightarrow> db \<Rightarrow> (string \<times> string list) list" where
  "validate_permission_ids permissionIds d =
     (if permissionIds = [] then [(''permission_ids'', [''required''])]
      else [(''permission_ids.'' @ string_of_nat i, [''exists'']).
              (i, pid) \<leftarrow> zip [0 ..< length permissionIds] permissionIds,
              \<not> list_ex (\<lambda>p. p_id p = pid) (permissions d)])"

text \<open>\<open>$request->input('permissions') ?? $request->input('permission_ids') ?? []\<close>\<close>

definition requested_ids :: "nat list option \<Rightarrow> nat list option \<Rightarrow> nat list" where
  "requested_ids input_permissions input_permission_ids =
     (case input_permissions of Some ids \<Rightarrow> ids
      | None \<Rightarrow> (case input_permission_ids of Some ids \<Rightarrow> ids | None \<Rightarrow> []))"

definition RoleController_assignPermissions ::
  "nat list option \<Rightarrow> nat list option \<Rightarrow> nat \<Rightarrow> world \<Rightarrow> loaded_role json_response \<times> world" where
  "RoleController_assignPermissions input_permissions input_permission_ids role w =
     (let permissionIds = requested_ids input_permissions input_permission_ids
      in case validate_permission_ids permissionIds (w_db w) of
           e # errs \<Rightarrow> (validation_response (e # errs), w)
         | [] \<Rightarrow>
             (case RoleService_assignPermissions role permissionIds (w_db w) of
                (Inr roleData, d) \<Rightarrow>
                  (let w1 = clearRoleUsersPermissionsCache role (w\<lparr>w_db := d\<rparr>)
                   in (ok_response 200 ''Permissions assigned successfully.'' (Some roleData), w1))
              | (Inl (ModelNotFoundException _), d) \<Rightarrow>
                  (not_found_response ''Role not found.'', w\<lparr>w_db := d\<rparr>)
              | (Inl (ValidationException errs), d) \<Rightarrow>
                  (validation_response errs, w\<lparr>w_db := d\<rparr>)
              | (Inl (PhpError msg), d) \<Rightarrow> (internal_response msg, w\<lparr>w_db := d\<rparr>)))"

section \<open>UserService and UserController\<close>

text \<open>
  The validated payload of an update: \<open>isset\<close> keys are optional values, the
  \<open>array_key_exists\<close> key \<open>avatar\<close> can be present and \<open>null\<close>.
\<close>

record user_data =
  ud_name :: "string option"
  ud_email :: "string option"
  ud_password :: "string option"
  ud_avatar :: "string option option"
  ud_is_active :: "bool option"
  ud_role_ids :: "nat list option"

type_synonym loaded_user = "user_row \<times> role_row list"

definition apply_update :: "(string \<Rightarrow> string) \<Rightarrow> user_data \<Rightarrow> user_row \<Rightarrow> user_row" where
  "apply_update hash_make data u =
     (let u1 = (case ud_name data of Some n \<Rightarrow> u\<lparr>u_name := n\<rparr> | None \<Rightarrow> u);
          u2 = (case ud_email data of Some e \<Rightarrow> u1\<lparr>u_email := e\<rparr> | None \<Rightarrow> u1);
          u3 = (case ud_password data of Some pw \<Rightarrow> u2\<lparr>u_password := hash_make pw\<rparr>
                | None \<Rightarrow> u2);
          u4 = (case ud_avatar data of Some a \<Rightarrow> u3\<lparr>u_avatar := a\<rparr> | None \<Rightarrow> u3)
      in (case ud_is_active data of Some b \<Rightarrow> u4\<lparr>u_is_active := b\<rparr> | None \<Rightarrow> u4))"

text \<open>\<open>Hash::make\<close> is the framework's password hash, a parameter of the model.\<close>

definition updateUser :: "(string \<Rightarrow> string) \<Rightarrow> nat \<Rightarrow> user_data \<Rightarrow> db \<Rightarrow> loaded_user result" where
  "updateUser hash_make i data d =
     (case User_find d i of
        None \<Rightarrow> (Inl (ModelNotFoundException ''User''), d)
      | Some user \<Rightarrow>
          if (case ud_email data of
                Some e \<Rightarrow> truthy_string e \<and> e \<noteq> u_email user \<and>
                  list_ex (\<lambda>u. u_email u = e \<and> u_id u \<noteq> i \<and> u_deleted_at u = None) (users d)
              | None \<Rightarrow> False)
          then (Inl (ValidationException [(''email'', [''The email has already been taken.''])]), d)
          else transaction d (\<lambda>d0.
            (let d1 = d0\<lparr>users := map (\<lambda>u. if u_id u = u_id user
                                            then apply_update hash_make data u else u) (users d0)\<rparr>;
                 d2 = (case ud_role_ids data of
                         Some ids \<Rightarrow> d1\<lparr>role_user := sync_roles (u_id user) ids (role_user d1)\<rparr>
                       | None \<Rightarrow> d1)
             in case find (\<lambda>u. u_id u = u_id user) (users d2) of
                  None \<Rightarrow> (Inl (PhpError ''Call to a member function load() on null''), d2)
                | Some fresh \<Rightarrow> (Inr (fresh, user_roles d2 (u_id fresh)), d2))))"

definition assignRoles :: "nat \<Rightarrow> nat list \<Rightarrow> db \<Rightarrow> loaded_user result" where
  "assignRoles userId roleIds d =
     (case User_find d userId of
        None \<Rightarrow> (Inl (ModelNotFoundException ''User''), d)
      | Some user \<Rightarrow>
          (let d1 = d\<lparr>role_user := sync_roles (u_id user) roleIds (role_user d)\<rparr>
           in case find (\<lambda>u. u_id u = u_id user) (users d1) of
                None \<Rightarrow> (Inl (PhpError ''Call to a member function load() on null''), d1)
              | Some fresh \<Rightarrow> (Inr (fresh, user_roles d1 (u_id fresh)), d1)))"

definition UserController_update ::
  "(string \<Rightarrow> string) \<Rightarrow> user_data \<Rightarrow> nat \<Rightarrow> world \<Rightarrow> loaded_user json_response \<times> world" where
  "UserController_update hash_make validated user w =
     (case updateUser hash_make user validated (w_db w) of
        (Inr userData, d) \<Rightarrow>
          (ok_response 200 ''User updated successfully.'' (Some userData), w\<lparr>w_db := d\<rparr>)
      | (Inl (ModelNotFoundException _), d) \<Rightarrow>
          (not_found_response ''User not found.'', w\<lparr>w_db := d\<rparr>)
      | (Inl (ValidationException errs), d) \<Rightarrow> (validation_response errs, w\<lparr>w_db := d\<rparr>)
      | (Inl (PhpError msg), d) \<Rightarrow> (internal_response msg, w\<lparr>w_db := d\<rparr>))"

definition UserController_assignRoles ::
  "nat list \<Rightarrow> nat \<Rightarrow> world \<Rightarrow> loaded_user json_response \<times> world" where
  "UserController_assignRoles role_ids user w =
     (case assignRoles user role_ids (w_db w) of
        (Inr userData, d) \<Rightarrow>
          (ok_response 200 ''Roles assigned successfully.'' (Some userData), w\<lparr>w_db := d\<rparr>)
      | (Inl (ModelNotFoundException _), d) \<Rightarrow>
          (not_found_response ''User not found.'', w\<lparr>w_db := d\<rparr>)
      | (Inl (ValidationException errs), d) \<Rightarrow> (validation_response errs, w\<lparr>w_db := d\<rparr>)
      | (Inl (PhpError msg), d) \<Rightarrow> (internal_response msg, w\<lparr>w_db := d\<rparr>))"

section \<open>AuditLogger::handle\<close>

text \<open>
  The rest of the pipeline runs first and always answers with a response (the framework
  turns an exception of a controller into an error response); it may change the store,
  the audit table included, and the cache.
\<close>

definition AuditLogger_handle ::
  "php_builtins \<Rightarrow> request \<Rightarrow> (request \<Rightarrow> world \<Rightarrow> response \<times> world) \<Rightarrow> world
    \<Rightarrow> response \<times> world" where
  "AuditLogger_handle php rq next w =
     (let (rs, w1) = next rq w
      in if shouldLog rq rs
         then (rs, w1\<lparr>w_db := (w_db w1)\<lparr>audit_logs := logAction php rq rs (audit_logs (w_db w1))\<rparr>\<rparr>)
         else (rs, w1))"

section \<open>Example states\<close>

definition example_snapshot :: php_array where
  "example_snapshot = [(''password'', VNull), (''token'', VStr ''abc''),
     (''profile'', VArr [(''password'', VStr ''hunter2'')]), (''name'', VStr ''new'')]"

definition example_context :: request_context where
  "example_context = \<lparr>auth_id = Some 1, request_ip = Some ''10.0.0.1'',
     request_userAgent = Some ''curl''\<rparr>"

definition example_new_values :: php_array where
  "example_new_values = [(''password'', VStr ''secret123''), (''name'', VStr ''new'')]"

definition example_auth :: auth_state where
  "example_auth = \<lparr>as_user = Some 1, as_token = Some ''tok'',
     as_permissions = [''users.view'']\<rparr>"

definition alice :: user_row where
  "alice = \<lparr>u_id = 1, u_name = ''Alice'', u_email = ''alice@example.com'',
     u_password = ''$2y$alice'', u_avatar = None, u_is_active = True,
     u_email_verified_at = Some 5, u_deleted_at = None\<rparr>"

definition bob :: user_row where
  "bob = \<lparr>u_id = 2, u_name = ''Bob'', u_email = ''bob@example.com'',
     u_password = ''$2y$bob'', u_avatar = None, u_is_active = True,
     u_email_verified_at = Some 6, u_deleted_at = None\<rparr>"

definition carol :: user_row where
  "carol = \<lparr>u_id = 3, u_name = ''Carol'', u_email = ''carol@example.com'',
     u_password = ''$2y$carol'', u_avatar = None, u_is_active = True,
     u_email_verified_at = None, u_deleted_at = None\<rparr>"

definition super_admin :: role_row where
  "super_admin = \<lparr>r_id = 1, r_name = ''Super Admin'',
     r_description = Some ''Full system access'', r_is_system = True\<rparr>"

definition editor :: role_row where
  "editor = \<lparr>r_id = 2, r_name = ''Editor'', r_description = None, r_is_system = False\<rparr>"

definition accountant :: role_row where
  "accountant = \<lparr>r_id = 3, r_name = ''Accountant'',
     r_description = Some ''Accounting access'', r_is_system = True\<rparr>"

definition users_view :: permission_row where
  "users_view = \<lparr>p_id = 1, p_name = ''users.view'', p_description = Some ''View users list'',
     p_module = ''users''\<rparr>"

definition users_edit :: permission_row where
  "users_edit = \<lparr>p_id = 2, p_name = ''users.edit'', p_description = Some ''Edit existing users'',
     p_module = ''users''\<rparr>"

definition roles_view :: permission_row where
  "roles_view = \<lparr>p_id = 3, p_name = ''roles.view'', p_description = Some ''View roles list'',
     p_module = ''roles''\<rparr>"

text \<open>
  Alice holds the roles Super Admin and Editor, Bob holds Editor, Carol holds no role;
  the system role Accountant has a permission and no user.
\<close>

definition example_db :: db where
  "example_db = \<lparr>users = [alice, bob, carol],
     roles = [super_admin, editor, accountant],
     permissions = [users_view, users_edit, roles_view],
     role_user = [(1, 1), (2, 1), (2, 2)],
     permission_role = [(1, 1), (1, 2), (2, 2), (2, 3), (3, 1)],
     audit_logs = []\<rparr>"

definition example_world :: world where
  "example_world = \<lparr>w_db = example_db, w_cache = Map.empty\<rparr>"

text \<open>
  A stand-in for \<open>==\<close> on two strings that both hold a digit. No permission name of
  the examples holds a digit, so no example reaches it.
\<close>

definition example_numeric_eq :: "string \<Rightarrow> string \<Rightarrow> bool" where
  "example_numeric_eq a b = (a = b)"

text \<open>The same world after Bob's and Alice's permissions were checked at time 100.\<close>

definition cached_world :: world where
  "cached_world = snd (userHasPermission example_numeric_eq 100 alice ''users.view''
     (snd (userHasPermission example_numeric_eq 100 bob ''roles.view'' example_world)))"

definition no_update :: user_data where
  "no_update = \<lparr>ud_name = None, ud_email = None, ud_password = None, ud_avatar = None,
     ud_is_active = None, ud_role_ids = None\<rparr>"

text \<open>Then \<open>PUT /api/users/2\<close> with \<open>role_ids = []\<close> takes Bob out of every role.\<close>

definition detached_world :: world where
  "detached_world =
     snd (UserController_update id (no_update\<lparr>ud_role_ids := Some []\<rparr>) 2 cached_world)"

definition role_with_bad_ids :: "nat list \<Rightarrow> role_data" where
  "role_with_bad_ids ids = \<lparr>rd_name = ''Clerk'', rd_description = None,
     rd_is_system = None, rd_permission_ids = Some ids\<rparr>"

definition example_php :: php_builtins where
  "example_php = \<lparr>intval = (\<lambda>v. case v of VInt i \<Rightarrow> i | _ \<Rightarrow> 0),
     json_decode = (\<lambda>s. VNull)\<rparr>"

definition post_roles :: request where
  "post_roles = \<lparr>rq_user = Some 1, rq_method = ''POST'', rq_path = ''api/roles'',
     rq_segments = [''api'', ''roles''], rq_route_id = None, rq_route_user = None,
     rq_route_role = None,
     rq_all = [(''name'', VStr ''Clerk''), (''secret'', VStr ''s3'')],
     rq_ip = Some ''10.0.0.1'', rq_userAgent = Some ''curl''\<rparr>"

text \<open>A rest of the pipeline that answers with a given status and changes nothing.\<close>

definition answer_with :: "int \<Rightarrow> request \<Rightarrow> world \<Rightarrow> response \<times> world" where
  "answer_with status rq w = (\<lparr>rs_status = status, rs_content = []\<rparr>, w)"

section \<open>Redaction of value snapshots\<close>

lemma isset_key_redact_field: "isset_key (redact_field f vs) k = isset_key vs k"
  by (auto simp: redact_field_def isset_key_def update_conv' REDACTED_def
      split: option.splits val.splits)

lemma map_of_redact_field:
  "map_of (redact_field f vs) k = (if k = f \<and> isset_key vs k then Some REDACTED else map_of vs k)"
  by (auto simp: redact_field_def update_conv')

lemma keys_redact_field: "map fst (redact_field f vs) = map fst vs"
  by (auto simp: redact_field_def isset_key_def update_keys map_of_eq_None_iff [symmetric]
      split: option.splits)

lemma map_of_fold_redact:
  "map_of (fold redact_field fs vs) k =
     (if k \<in> set fs \<and> isset_key vs k then Some REDACTED else map_of vs k)"
proof (induction fs arbitrary: vs)
  case Nil
  show ?case by simp
next
  case (Cons f fs)
  show ?case
    by (auto simp add: Cons.IH isset_key_redact_field map_of_redact_field)
qed

lemma keys_fold_redact: "map fst (fold redact_field fs vs) = map fst vs"
  by (induction fs arbitrary: vs) (simp_all add: keys_redact_field)

text \<open>
  Claim C9. \<open>sanitizeValues\<close> of the audit service and \<open>sanitizeRequestData\<close> of the
  middleware keep the keys of the map and their order, and replace the value of a key
  by the marker exactly when the key is one of the eight sensitive keys at the top level
  and its value is not null. So a sensitive key holding null stays null, and the value
  of any other key is returned as it is, whatever it contains: a sensitive key inside a
  sub-map is not redacted.
\<close>

theorem sanitize_shallow_skips_null:
  "map fst (sanitizeValues vs) = map fst vs
   \<and> map_of (sanitizeValues vs) k
       = (if k \<in> set sensitiveFields \<and> isset_key vs k then Some REDACTED else map_of vs k)
   \<and> (map_of vs k = Some VNull \<longrightarrow> map_of (sanitizeValues vs) k = Some VNull)
   \<and> (k \<notin> set sensitiveFields \<longrightarrow> map_of (sanitizeValues vs) k = map_of vs k)
   \<and> map fst (sanitizeRequestData vs) = map fst vs
   \<and> map_of (sanitizeRequestData vs) k
       = (if k \<in> set sensitiveFields \<and> isset_key vs k then Some REDACTED else map_of vs k)
   \<and> (map_of vs k = Some VNull \<longrightarrow> map_of (sanitizeRequestData vs) k = Some VNull)
   \<and> (k \<notin> set sensitiveFields \<longrightarrow> map_of (sanitizeRequestData vs) k = map_of vs k)"
  by (simp add: sanitizeValues_def sanitizeRequestData_def keys_fold_redact map_of_fold_redact
        isset_key_def)

theorem sanitize_shallow_skips_null_witness:
  "map_of example_snapshot ''password'' = Some VNull
   \<and> map_of (sanitizeValues example_snapshot) ''password'' = Some VNull
   \<and> ''profile'' \<notin> set sensitiveFields
   \<and> map_of (sanitizeValues example_snapshot) ''profile''
       = Some (VArr [(''password'', VStr ''hunter2'')])
   \<and> map_of (sanitizeRequestData example_snapshot) ''profile''
       = Some (VArr [(''password'', VStr ''hunter2'')])
   \<and> map_of (sanitizeValues example_snapshot) ''token'' = Some (VStr ''[REDACTED]'')"
  using sanitize_shallow_skips_null [of example_snapshot "''password''"]
    sanitize_shallow_skips_null [of example_snapshot "''profile''"]
    sanitize_shallow_skips_null [of example_snapshot "''token''"]
  by (simp add: example_snapshot_def sensitiveFields_def isset_key_def REDACTED_def)

text \<open>
  Claim C5, as stated, fails: \<open>AuditLogService::log\<close> persists the maps it is given as
  they are (redaction is done by its callers), and the wrappers leave a sensitive key
  whose value is null as it is.
\<close>

theorem log_persists_unredacted_counterexample:
  "al_new_values (fst (AuditLogService_log example_context ''update'' ''users'' (Some 1)
       (no_data\<lparr>d_new_values := Some example_new_values\<rparr>) []))
     = Some [(''password'', VStr ''secret123''), (''name'', VStr ''new'')]
   \<and> al_new_values (fst (logUpdate example_context ''users'' 1 [] [(''password'', VNull)] None []))
     = Some [(''password'', VNull)]"
  by (simp add: AuditLogService_log_def Let_def logUpdate_def no_data_def example_new_values_def
        sanitizeValues_def sensitiveFields_def redact_field_def isset_key_def)

text \<open>
  Claim C5, amended. An entry recorded through \<open>logCreate\<close>, \<open>logUpdate\<close> or
  \<open>logDelete\<close> is appended to the audit table with, in its old-values map and
  independently in its new-values map, every non-null value at a top-level sensitive key
  replaced by \<open>[REDACTED]\<close> and every other key mapped to its original value;
  \<open>log\<close> itself persists the maps of its \<open>$data\<close> argument unchanged.
\<close>

theorem wrappers_redact_non_null:
  "map_option (\<lambda>a. map_of a k) (al_new_values (fst (logCreate ctx res rid new r tbl)))
     = Some (if k \<in> set sensitiveFields \<and> isset_key new k then Some REDACTED else map_of new k)
   \<and> map_option (\<lambda>a. map_of a k) (al_old_values (fst (logUpdate ctx res rid old new r tbl)))
     = Some (if k \<in> set sensitiveFields \<and> isset_key old k then Some REDACTED else map_of old k)
   \<and> map_option (\<lambda>a. map_of a k) (al_new_values (fst (logUpdate ctx res rid old new r tbl)))
     = Some (if k \<in> set sensitiveFields \<and> isset_key new k then Some REDACTED else map_of new k)
   \<and> map_option (\<lambda>a. map_of a k) (al_old_values (fst (logDelete ctx res rid old r tbl)))
     = Some (if k \<in> set sensitiveFields \<and> isset_key old k then Some REDACTED else map_of old k)
   \<and> snd (logCreate ctx res rid new r tbl) = tbl @ [fst (logCreate ctx res rid new r tbl)]
   \<and> snd (logUpdate ctx res rid old new r tbl) = tbl @ [fst (logUpdate ctx res rid old new r tbl)]
   \<and> snd (logDelete ctx res rid old r tbl) = tbl @ [fst (logDelete ctx res rid old r tbl)]
   \<and> al_old_values (fst (AuditLogService_log ctx action res rid' data tbl)) = d_old_values data
   \<and> al_new_values (fst (AuditLogService_log ctx action res rid' data tbl)) = d_new_values data"
  by (simp add: logCreate_def logUpdate_def logDelete_def AuditLogService_log_def Let_def
        no_data_def sanitizeValues_def map_of_fold_redact)

theorem wrappers_redact_non_null_witness:
  "al_new_values (fst (logUpdate example_context ''users'' 1 [] example_new_values None []))
     = Some [(''password'', VStr ''[REDACTED]''), (''name'', VStr ''new'')]
   \<and> map_option (\<lambda>a. map_of a ''password'')
         (al_new_values (fst (logUpdate example_context ''users'' 1 [] example_new_values None [])))
     = Some (Some (VStr ''[REDACTED]''))
   \<and> map_option (\<lambda>a. map_of a ''name'')
         (al_new_values (fst (logUpdate example_context ''users'' 1 [] example_new_values None [])))
     = Some (Some (VStr ''new''))"
  using wrappers_redact_non_null [of "''password''" example_context "''users''" 1
          example_new_values None "[]" "[]"]
    wrappers_redact_non_null [of "''name''" example_context "''users''" 1
          example_new_values None "[]" "[]"]
  by (simp add: logUpdate_def AuditLogService_log_def Let_def no_data_def example_new_values_def
        sanitizeValues_def sensitiveFields_def redact_field_def isset_key_def REDACTED_def)

section \<open>Permission checks of the dashboard\<close>

text \<open>
  Claim C2, as stated, fails: with an empty list of required permissions,
  \<open>hasAnyPermission\<close> answers false (\<open>some\<close> over an empty array).
\<close>

theorem hasAnyPermission_empty_counterexample:
  "hasAnyPermission example_auth [] = False"
  by (simp add: hasAnyPermission_def)

text \<open>
  Claim C2, amended. For every user, \<open>hasAllPermissions(U, [])\<close> is true and
  \<open>hasAnyPermission(U, [])\<close> is false; "no permission required means allow" is
  decided by the guards \<open>Can\<close> and \<open>ProtectedRoute\<close>, which grant access without
  consulting either helper when the list of required permissions is empty or absent.
\<close>

theorem empty_requirement:
  "hasAllPermissions st [] = True
   \<and> hasAnyPermission st [] = False
   \<and> hasAccess st \<lparr>gp_permission = None, gp_permissions = Some [], gp_requireAll = ra\<rparr> = True
   \<and> hasAccess st \<lparr>gp_permission = None, gp_permissions = None, gp_requireAll = ra\<rparr> = True"
  by (simp add: hasAllPermissions_def hasAnyPermission_def hasAccess_def)

theorem empty_requirement_witness:
  "hasAllPermissions (example_auth\<lparr>as_permissions := []\<rparr>) []
   \<and> \<not> hasAnyPermission (example_auth\<lparr>as_permissions := []\<rparr>) []
   \<and> hasAccess (example_auth\<lparr>as_permissions := []\<rparr>)
        \<lparr>gp_permission = None, gp_permissions = Some [], gp_requireAll = False\<rparr>"
  using empty_requirement [of "example_auth\<lparr>as_permissions := []\<rparr>" False]
  by simp

section \<open>The audit middleware\<close>

text \<open>
  Claim C8. \<open>AuditLogger::handle\<close> returns the response of the rest of the pipeline,
  and compared with the state that the rest of the pipeline left, it appends exactly one
  audit entry when the principal is authenticated, the method is POST, PUT, PATCH or
  DELETE, the path starts with none of the excluded routes and the status is in
  200..299; in every other case (so whenever the mutation did not end in a 2xx
  response) it leaves the state as it is.
\<close>

theorem audit_only_after_success:
  "fst (AuditLogger_handle php rq next w) = fst (next rq w)
   \<and> ((rq_user rq \<noteq> None \<and> rq_method rq \<in> {''POST'', ''PUT'', ''PATCH'', ''DELETE''}
        \<and> \<not> str_starts_with (rq_path rq) ''api/auth/login''
        \<and> \<not> str_starts_with (rq_path rq) ''api/auth/logout''
        \<and> \<not> str_starts_with (rq_path rq) ''api/auth/register''
        \<and> 200 \<le> rs_status (fst (next rq w)) \<and> rs_status (fst (next rq w)) < 300)
       \<longrightarrow> (\<exists>entry. audit_logs (w_db (snd (AuditLogger_handle php rq next w)))
                     = audit_logs (w_db (snd (next rq w))) @ [entry]))
   \<and> (\<not> (rq_user rq \<noteq> None \<and> rq_method rq \<in> {''POST'', ''PUT'', ''PATCH'', ''DELETE''}
        \<and> \<not> str_starts_with (rq_path rq) ''api/auth/login''
        \<and> \<not> str_starts_with (rq_path rq) ''api/auth/logout''
        \<and> \<not> str_starts_with (rq_path rq) ''api/auth/register''
        \<and> 200 \<le> rs_status (fst (next rq w)) \<and> rs_status (fst (next rq w)) < 300)
       \<longrightarrow> snd (AuditLogger_handle php rq next w) = snd (next rq w))"
proof -
  obtain rs w1 where n: "next rq w = (rs, w1)" by (cases "next rq w")
  have s: "shouldLog rq rs =
     (rq_user rq \<noteq> None \<and> rq_method rq \<in> {''POST'', ''PUT'', ''PATCH'', ''DELETE''}
        \<and> \<not> str_starts_with (rq_path rq) ''api/auth/login''
        \<and> \<not> str_starts_with (rq_path rq) ''api/auth/logout''
        \<and> \<not> str_starts_with (rq_path rq) ''api/auth/register''
        \<and> 200 \<le> rs_status rs \<and> rs_status rs < 300)"
    by (auto simp: shouldLog_def loggableMethods_def excludedRoutes_def)
  show ?thesis
    using s by (simp add: AuditLogger_handle_def n logAction_def AuditLogService_log_def Let_def)
qed

theorem audit_only_after_success_witness:
  "audit_logs (w_db (snd (AuditLogger_handle example_php post_roles (answer_with 201) example_world)))
     = [\<lparr>al_id = 1, al_user_id = Some 1, al_action = ''create'', al_resource = ''roles'',
         al_resource_id = None, al_old_values = None,
         al_new_values = Some [(''name'', VStr ''Clerk''), (''secret'', VStr ''[REDACTED]'')],
         al_ip_address = Some ''10.0.0.1'', al_user_agent = Some ''curl''\<rparr>]
   \<and> snd (AuditLogger_handle example_php post_roles (answer_with 422) example_world)
     = example_world
   \<and> snd (AuditLogger_handle example_php (post_roles\<lparr>rq_user := None\<rparr>) (answer_with 201)
        example_world) = example_world
   \<and> snd (AuditLogger_handle example_php (post_roles\<lparr>rq_method := ''GET''\<rparr>) (answer_with 200)
        example_world) = example_world
   \<and> snd (AuditLogger_handle example_php (post_roles\<lparr>rq_path := ''api/auth/login''\<rparr>)
        (answer_with 200) example_world) = example_world"
  using audit_only_after_success [of example_php post_roles "answer_with 201" example_world]
    audit_only_after_success [of example_php post_roles "answer_with 422" example_world]
    audit_only_after_success [of example_php "post_roles\<lparr>rq_user := None\<rparr>" "answer_with 201"
      example_world]
    audit_only_after_success [of example_php "post_roles\<lparr>rq_method := ''GET''\<rparr>" "answer_with 200"
      example_world]
    audit_only_after_success [of example_php "post_roles\<lparr>rq_path := ''api/auth/login''\<rparr>"
      "answer_with 200" example_world]
  by (simp add: AuditLogger_handle_def shouldLog_def loggableMethods_def excludedRoutes_def
      logAction_def AuditLogService_log_def Let_def no_data_def coalesce_def context_of_def
      determineAction_def determineResource_def determineResourceId_def truthy_string_def
      sanitizeRequestData_def sensitiveFields_def redact_field_def isset_key_def REDACTED_def
      next_id_def post_roles_def answer_with_def example_world_def example_db_def)

section \<open>The permission resolver\<close>

lemmas ex_defs = example_db_def alice_def bob_def carol_def super_admin_def editor_def
  accountant_def users_view_def users_edit_def roles_view_def

lemma unique_from_keys:
  "f ` set (unique_from f seen xs) = f ` set xs - set seen"
  by (induction xs arbitrary: seen) auto

lemma unique_from_distinct: "distinct (map f (unique_from f seen xs))"
proof (induction xs arbitrary: seen)
  case Nil
  show ?case by simp
next
  case (Cons x xs)
  have "f x \<notin> f ` set (unique_from f (seen @ [f x]) xs)"
    by (simp add: unique_from_keys)
  with Cons show ?case by simp
qed

lemma unique_from_set:
  "inj_on f (set xs) \<Longrightarrow> set (unique_from f seen xs) = {x \<in> set xs. f x \<notin> set seen}"
proof (induction xs arbitrary: seen)
  case Nil
  show ?case by simp
next
  case (Cons x xs)
  have inj: "inj_on f (set xs)" using Cons.prems by (simp add: inj_on_def)
  have eq: "\<And>y. y \<in> set xs \<Longrightarrow> f y = f x \<Longrightarrow> y = x"
    using Cons.prems by (auto simp: inj_on_def)
  show ?case using Cons.IH [OF inj] eq by auto
qed

lemma unique_keys: "f ` set (unique f xs) = f ` set xs"
  by (simp add: unique_def unique_from_keys)

lemma unique_set: "inj_on f (set xs) \<Longrightarrow> set (unique f xs) = set xs"
  by (simp add: unique_def unique_from_set)

lemma unique_distinct: "distinct (map f (unique f xs))"
  by (simp add: unique_def unique_from_distinct)

lemma role_permissions_subset: "set (role_permissions d rid) \<subseteq> set (permissions d)"
  by (auto simp: role_permissions_def)

lemma all_perms_subset:
  "set (concat (map (\<lambda>r. role_permissions d (r_id r)) rs)) \<subseteq> set (permissions d)"
  using role_permissions_subset by fastforce

text \<open>
  Claim C6. The permissions resolved for a user are, by permission id, exactly the
  union of the permissions of the user's roles, each id once; when ids are the primary
  key of the permissions table the resolved rows are that union as a set. A user with
  no role resolves to no permission. \<open>User::getAllPermissions\<close> computes the same list.
\<close>

theorem getUserPermissions_union:
  "p_id ` set (getUserPermissions d u)
     = (\<Union>r \<in> set (user_roles d (u_id u)). p_id ` set (role_permissions d (r_id r)))
   \<and> distinct (map p_id (getUserPermissions d u))
   \<and> (distinct (map p_id (permissions d)) \<longrightarrow>
        set (getUserPermissions d u)
          = (\<Union>r \<in> set (user_roles d (u_id u)). set (role_permissions d (r_id r))))
   \<and> (user_roles d (u_id u) = [] \<longrightarrow> getUserPermissions d u = [])
   \<and> getAllPermissions d u = getUserPermissions d u"
proof -
  let ?all = "concat (map (\<lambda>r. role_permissions d (r_id r)) (user_roles d (u_id u)))"
  have a: "p_id ` set (getUserPermissions d u)
     = (\<Union>r \<in> set (user_roles d (u_id u)). p_id ` set (role_permissions d (r_id r)))"
    by (auto simp: getUserPermissions_def unique_keys)
  have b: "distinct (map p_id (getUserPermissions d u))"
    by (simp add: getUserPermissions_def unique_distinct)
  have c: "set (getUserPermissions d u)
          = (\<Union>r \<in> set (user_roles d (u_id u)). set (role_permissions d (r_id r)))"
    if pk: "distinct (map p_id (permissions d))"
  proof -
    from pk have "inj_on p_id (set (permissions d))" by (simp add: distinct_map)
    then have "inj_on p_id (set ?all)"
      using all_perms_subset by (rule inj_on_subset)
    then have "set (unique p_id ?all) = set ?all" by (rule unique_set)
    then show ?thesis by (simp add: getUserPermissions_def)
  qed
  have e: "getUserPermissions d u = []" if "user_roles d (u_id u) = []"
    using that by (simp add: getUserPermissions_def unique_def)
  have f: "getAllPermissions d u = getUserPermissions d u"
    by (simp add: getAllPermissions_def getUserPermissions_def)
  from a b c e f show ?thesis by blast
qed

theorem getUserPermissions_union_witness:
  "distinct (map p_id (permissions example_db))
   \<and> map r_id (user_roles example_db (u_id alice)) = [1, 2]
   \<and> map p_id (role_permissions example_db 1) = [1, 2]
   \<and> map p_id (role_permissions example_db 2) = [2, 3]
   \<and> set (getUserPermissions example_db alice) = {users_view, users_edit, roles_view}
   \<and> getUserPermissions example_db alice = [users_view, users_edit, roles_view]
   \<and> user_roles example_db (u_id carol) = []
   \<and> getUserPermissions example_db carol = []"
  using getUserPermissions_union [of example_db alice]
    getUserPermissions_union [of example_db carol]
  by (simp add: getUserPermissions_def user_roles_def role_permissions_def unique_def ex_defs)

section \<open>RoleService\<close>

lemma Role_find_id: "Role_find d i = Some r \<Longrightarrow> r_id r = i"
  by (auto simp: Role_find_def find_Some_iff)

lemma Role_find_mem: "Role_find d i = Some r \<Longrightarrow> r \<in> set (roles d)"
  by (auto simp: Role_find_def find_Some_iff)

text \<open>
  Deletion depends on the role's users only: any role that is found and has no user
  attached is deleted, whatever its \<open>is_system\<close> flag.
\<close>

lemma deleteRole_ignores_is_system:
  assumes "Role_find d i = Some role" "role_users d i = []"
  shows "fst (deleteRole i d) = Inr True \<and> Role_find (snd (deleteRole i d)) i = None"
proof -
  have id: "r_id role = i" using assms(1) by (rule Role_find_id)
  have "find (\<lambda>r. r_id r = i) (filter (\<lambda>r. r_id r \<noteq> i) (roles d)) = None"
    by (simp add: find_None_iff)
  then show ?thesis
    using assms id
    by (simp add: deleteRole_def hasAssignedUsers_def transaction_def Role_find_def Let_def)
qed

text \<open>
  Claim C1 does not hold of the code: \<open>deleteRole\<close> never reads \<open>is_system\<close>. The
  system role Accountant, to which no user is attached, is found, passes the
  assigned-users check, and is deleted together with its permission associations; the
  controller answers 200 "Role deleted successfully.".
\<close>

theorem deleteRole_deletes_system_role:
  "r_is_system accountant = True
   \<and> Role_find example_db 3 = Some accountant
   \<and> role_users example_db 3 = []
   \<and> deleteRole 3 example_db
       = (Inr True, example_db\<lparr>permission_role := [(1, 1), (1, 2), (2, 2), (2, 3)],
                                 roles := [super_admin, editor]\<rparr>)
   \<and> Role_find (snd (deleteRole 3 example_db)) 3 = None
   \<and> jr_status (fst (RoleController_destroy 3 example_world)) = 200
   \<and> jr_message (fst (RoleController_destroy 3 example_world)) = ''Role deleted successfully.''"
  by (simp add: deleteRole_def RoleController_destroy_def Role_find_def hasAssignedUsers_def
      role_users_def transaction_def ok_response_def example_world_def ex_defs)

lemma count_existing_less:
  assumes pk: "distinct (map p_id ps)" and i: "i \<in> set ids" and bad: "i \<notin> p_id ` set ps"
  shows "length (filter (\<lambda>p. p_id p \<in> set ids) ps) < length ids"
proof -
  let ?hits = "filter (\<lambda>j. j \<in> set ids) (map p_id ps)"
  have "length (filter (\<lambda>p. p_id p \<in> set ids) ps) = length ?hits"
    by (simp add: filter_map o_def)
  also have "\<dots> = card (set ?hits)"
    using distinct_card [of ?hits] pk by simp
  also have "\<dots> \<le> card (set ids - {i})"
    using bad by (intro card_mono) auto
  also have "\<dots> < card (set ids)"
    using i by (intro card_Diff1_less) simp_all
  also have "\<dots> \<le> length ids" by (rule card_length)
  finally show ?thesis .
qed

lemma validate_rejects:
  assumes "distinct (map p_id (permissions d))" "i \<in> set ids" "i \<notin> p_id ` set (permissions d)"
  shows "RoleService_validatePermissionIds ids d
           = Inl (ValidationException
                   [(''permission_ids'', [''One or more permission IDs are invalid.''])])"
  using count_existing_less [OF assms] assms(2)
  by (auto simp: RoleService_validatePermissionIds_def Let_def)

text \<open>
  Claim C7, as stated, fails in one point: the error raised for an invalid permission
  reference does not list the bad ids. Two requests with different bad ids get the same
  error, a fixed message under the key \<open>permission_ids\<close>.
\<close>

theorem createRole_error_names_no_ids_counterexample:
  "fst (createRole (role_with_bad_ids [1, 99]) example_db)
     = Inl (ValidationException
         [(''permission_ids'', [''One or more permission IDs are invalid.''])])
   \<and> fst (createRole (role_with_bad_ids [98]) example_db)
     = Inl (ValidationException
         [(''permission_ids'', [''One or more permission IDs are invalid.''])])"
  by (simp add: createRole_def role_with_bad_ids_def transaction_def next_id_def
      RoleService_validatePermissionIds_def ex_defs)

text \<open>
  Claim C7, amended. \<open>createRole\<close> fails with the duplicate-name validation error when
  a role with exactly that name exists. Otherwise, when permission ids are given and one
  of them is not the id of a permission (ids being the primary key of the permissions
  table), it fails with the validation error on \<open>permission_ids\<close> that carries the fixed
  message "One or more permission IDs are invalid." and no list of ids. In both
  failures the store is the one before the call: the role row inserted inside the
  transaction is rolled back.
\<close>

theorem createRole_failures:
  "(list_ex (\<lambda>r. r_name r = rd_name data) (roles d) \<longrightarrow>
      createRole data d
        = (Inl (ValidationException [(''name'', [''A role with this name already exists.''])]), d))
   \<and> (\<not> list_ex (\<lambda>r. r_name r = rd_name data) (roles d) \<longrightarrow>
      distinct (map p_id (permissions d)) \<longrightarrow>
      rd_permission_ids data = Some ids \<longrightarrow> i \<in> set ids \<longrightarrow> i \<notin> p_id ` set (permissions d) \<longrightarrow>
      createRole data d
        = (Inl (ValidationException
             [(''permission_ids'', [''One or more permission IDs are invalid.''])]), d))"
proof (intro conjI impI)
  assume "list_ex (\<lambda>r. r_name r = rd_name data) (roles d)"
  then show "createRole data d
        = (Inl (ValidationException [(''name'', [''A role with this name already exists.''])]), d)"
    by (simp add: createRole_def)
next
  assume fresh: "\<not> list_ex (\<lambda>r. r_name r = rd_name data) (roles d)"
    and pk: "distinct (map p_id (permissions d))"
    and ids: "rd_permission_ids data = Some ids"
    and i: "i \<in> set ids" and bad: "i \<notin> p_id ` set (permissions d)"
  let ?role = "\<lparr>r_id = next_id (map r_id (roles d)), r_name = rd_name data,
                 r_description = rd_description data,
                 r_is_system = (case rd_is_system data of Some b \<Rightarrow> b | None \<Rightarrow> False)\<rparr>"
  let ?d1 = "d\<lparr>roles := roles d @ [?role]\<rparr>"
  from i obtain j js where js: "ids = j # js" by (cases ids) auto
  have "RoleService_validatePermissionIds ids ?d1
          = Inl (ValidationException
                   [(''permission_ids'', [''One or more permission IDs are invalid.''])])"
    using pk i bad by (intro validate_rejects) simp_all
  then show "createRole data d
        = (Inl (ValidationException
             [(''permission_ids'', [''One or more permission IDs are invalid.''])]), d)"
    using fresh ids js by (simp add: createRole_def transaction_def Let_def)
qed

theorem createRole_failures_witness:
  "list_ex (\<lambda>r. r_name r = ''Editor'') (roles example_db)
   \<and> createRole \<lparr>rd_name = ''Editor'', rd_description = None, rd_is_system = None,
                  rd_permission_ids = None\<rparr> example_db
       = (Inl (ValidationException [(''name'', [''A role with this name already exists.''])]),
          example_db)
   \<and> \<not> list_ex (\<lambda>r. r_name r = ''Clerk'') (roles example_db)
   \<and> distinct (map p_id (permissions example_db))
   \<and> 99 \<in> set [1, 99 :: nat] \<and> 99 \<notin> p_id ` set (permissions example_db)
   \<and> createRole (role_with_bad_ids [1, 99]) example_db
       = (Inl (ValidationException
            [(''permission_ids'', [''One or more permission IDs are invalid.''])]), example_db)
   \<and> map r_name (roles (snd (createRole (role_with_bad_ids [1, 99]) example_db)))
       = [''Super Admin'', ''Editor'', ''Accountant'']"
  using createRole_failures [of "\<lparr>rd_name = ''Editor'', rd_description = None,
          rd_is_system = None, rd_permission_ids = None\<rparr>" example_db "[]" 0]
    createRole_failures [of "role_with_bad_ids [1, 99]" example_db "[1, 99]" 99]
  by (simp add: role_with_bad_ids_def ex_defs)

section \<open>Cache keys\<close>

lemma digit_inj: "a < 10 \<Longrightarrow> b < 10 \<Longrightarrow> digit a = digit b \<Longrightarrow> a = b"
proof -
  assume a: "a < 10" and b: "b < 10" and eq: "digit a = digit b"
  from eq have "(of_char (digit a) :: nat) = of_char (digit b)" by simp
  then have "(48 + a) mod 256 = (48 + b) mod 256" by (simp add: digit_def)
  with a b show "a = b" by simp
qed

lemma string_of_nat_nonempty: "string_of_nat n \<noteq> []"
  by (subst string_of_nat.simps) simp

lemma string_of_nat_inj: "string_of_nat n = string_of_nat m \<Longrightarrow> n = m"
proof (induction n arbitrary: m rule: string_of_nat.induct)
  case (1 n)
  show ?case
  proof (cases "n < 10")
    case True
    show ?thesis
    proof (cases "m < 10")
      case m: True
      from "1.prems" True m have eq: "digit n = digit m"
        by (simp add: string_of_nat.simps)
      from True m eq show ?thesis by (rule digit_inj)
    next
      case m: False
      from "1.prems" True m have "[digit n] = string_of_nat (m div 10) @ [digit (m mod 10)]"
        by (simp add: string_of_nat.simps [of n] string_of_nat.simps [of m])
      then show ?thesis using string_of_nat_nonempty [of "m div 10"] by simp
    qed
  next
    case False
    show ?thesis
    proof (cases "m < 10")
      case m: True
      from "1.prems" False m have "string_of_nat (n div 10) @ [digit (n mod 10)] = [digit m]"
        by (simp add: string_of_nat.simps [of n] string_of_nat.simps [of m])
      then show ?thesis using string_of_nat_nonempty [of "n div 10"] by simp
    next
      case m: False
      from "1.prems" False m
      have "string_of_nat (n div 10) @ [digit (n mod 10)]
              = string_of_nat (m div 10) @ [digit (m mod 10)]"
        by (simp add: string_of_nat.simps [of n] string_of_nat.simps [of m])
      then have a: "string_of_nat (n div 10) = string_of_nat (m div 10)"
        and b: "digit (n mod 10) = digit (m mod 10)" by simp_all
      from "1.IH" [OF False a] have "n div 10 = m div 10" .
      moreover have "n mod 10 = m mod 10" by (rule digit_inj) (simp_all add: b)
      ultimately show ?thesis by (metis div_mult_mod_eq)
    qed
  qed
qed

lemma key_inj: "getUserPermissionsCacheKey a = getUserPermissionsCacheKey b \<Longrightarrow> a = b"
  by (simp add: getUserPermissionsCacheKey_def string_of_nat_inj)

lemma key_eq_iff: "(getUserPermissionsCacheKey a = getUserPermissionsCacheKey b) = (a = b)"
  using key_inj by auto

lemma key_example: "getUserPermissionsCacheKey 42 = ''user_permissions:42''"
  by code_simp

section \<open>Cache invalidation\<close>

lemma fold_clear:
  "fold clearUserPermissionsCache uids c k =
     (if k \<in> getUserPermissionsCacheKey ` set uids then None else c k)"
  by (induction uids arbitrary: c) (auto simp: clearUserPermissionsCache_def Cache_forget_def)

lemma clear_cache_entry:
  "w_cache (clearRoleUsersPermissionsCache roleId w) k =
     (if k \<in> getUserPermissionsCacheKey ` {uid. (roleId, uid) \<in> set (role_user (w_db w))}
      then None else w_cache w k)"
  by (auto simp: clearRoleUsersPermissionsCache_def fold_clear)

lemma clear_db: "w_db (clearRoleUsersPermissionsCache roleId w) = w_db w"
  by (simp add: clearRoleUsersPermissionsCache_def)

lemma in_array_exact:
  "\<not> has_digit needle \<Longrightarrow> in_array numeric_eq needle haystack = (needle \<in> set haystack)"
  by (auto simp: in_array_def loose_eq_def list_ex_iff)

text \<open>On two strings that both hold a digit the answer is the language's.\<close>

lemma in_array_numeric:
  "in_array numeric_eq ''1e1'' [''10''] = numeric_eq ''1e1'' ''10''"
  by (simp add: in_array_def loose_eq_def has_digit_def)

lemma no_digit_names [simp]:
  "\<not> has_digit ''users.view''" "\<not> has_digit ''users.edit''" "\<not> has_digit ''roles.view''"
  by (simp_all add: has_digit_def)

lemma miss_computes:
  "w_cache w (getUserPermissionsCacheKey (u_id user)) = None \<Longrightarrow>
   fst (userHasPermission numeric_eq now user permission w)
     = in_array numeric_eq permission (map p_name (getUserPermissions (w_db w) user))"
  by (simp add: userHasPermission_def Cache_remember_def Cache_get_def)

lemma cached_world_eq: "cached_world = \<lparr>w_db = example_db,
    w_cache = [getUserPermissionsCacheKey 2 \<mapsto> (3700, [''users.edit'', ''roles.view'']),
               getUserPermissionsCacheKey 1
                 \<mapsto> (3700, [''users.view'', ''users.edit'', ''roles.view''])]\<rparr>"
  by (simp add: cached_world_def userHasPermission_def Cache_remember_def Cache_get_def
      CACHE_TTL_def getUserPermissions_def user_roles_def role_permissions_def unique_def
      example_world_def ex_defs key_eq_iff in_array_exact)

lemma detached_world_eq:
  "detached_world = cached_world\<lparr>w_db := example_db\<lparr>role_user := [(1, 1), (2, 1)]\<rparr>\<rparr>"
  by (simp add: detached_world_def cached_world_eq UserController_update_def updateUser_def
      User_find_def transaction_def apply_update_def no_update_def sync_roles_def unique_def
      ok_response_def Let_def ex_defs)

text \<open>No user-mutation endpoint changes the cache, whatever the request.\<close>

lemma user_paths_leave_cache:
  "w_cache (snd (UserController_update hash_make validated user w)) = w_cache w
   \<and> w_cache (snd (UserController_assignRoles role_ids user w)) = w_cache w"
  by (simp add: UserController_update_def UserController_assignRoles_def
      split: prod.splits sum.splits error.splits)

text \<open>
  Claim C3 does not hold of the code. \<open>updateUser\<close> replaces the role membership, but
  neither it nor \<open>UserController::update\<close> touches the permission cache. Bob's
  permissions were cached at time 100 while he held the role Editor; the update with
  \<open>role_ids = []\<close> succeeds and leaves him no role and no permission in the store, yet
  his cache entry is still there and \<open>userHasPermission\<close> at time 200 still grants
  \<open>roles.view\<close> (whatever \<open>==\<close> answers on numeric strings).
\<close>

theorem updateUser_keeps_stale_cache:
  "fst (userHasPermission numeric_eq 100 bob ''roles.view'' example_world) = True
   \<and> jr_status (fst (UserController_update id (no_update\<lparr>ud_role_ids := Some []\<rparr>) 2 cached_world))
       = 200
   \<and> role_user (w_db (snd (UserController_update id (no_update\<lparr>ud_role_ids := Some []\<rparr>) 2
        cached_world))) = [(1, 1), (2, 1)]
   \<and> getUserPermissions (w_db (snd (UserController_update id (no_update\<lparr>ud_role_ids := Some []\<rparr>) 2
        cached_world))) bob = []
   \<and> w_cache (snd (UserController_update id (no_update\<lparr>ud_role_ids := Some []\<rparr>) 2 cached_world))
        (getUserPermissionsCacheKey 2) = Some (3700, [''users.edit'', ''roles.view''])
   \<and> fst (userHasPermission numeric_eq 200 bob ''roles.view''
        (snd (UserController_update id (no_update\<lparr>ud_role_ids := Some []\<rparr>) 2 cached_world)))
       = True"
  by (simp add: cached_world_eq UserController_update_def updateUser_def User_find_def
      transaction_def apply_update_def no_update_def sync_roles_def unique_def ok_response_def
      userHasPermission_def Cache_remember_def Cache_get_def CACHE_TTL_def Let_def
      getUserPermissions_def user_roles_def role_permissions_def example_world_def ex_defs
      key_eq_iff in_array_exact)

lemma service_assign_success:
  assumes "RoleService_assignPermissions role ids d = (Inr rd, d')"
  shows "d' = d\<lparr>permission_role := sync_permissions role ids (permission_role d)\<rparr>
         \<and> (\<exists>r. Role_find d role = Some r)
         \<and> RoleService_validatePermissionIds ids d = Inr True"
  using assms
  by (auto simp: RoleService_assignPermissions_def Let_def Role_find_def
      RoleService_validatePermissionIds_def
      dest!: Role_find_id [unfolded Role_find_def]
      split: option.splits sum.splits if_splits)

lemma controller_assign_success:
  assumes "RoleController_assignPermissions ip ipi role w = (resp, w')" "jr_status resp = 200"
  shows "validate_permission_ids (requested_ids ip ipi) (w_db w) = []
         \<and> (\<exists>rd d'. RoleService_assignPermissions role (requested_ids ip ipi) (w_db w) = (Inr rd, d')
           \<and> w' = clearRoleUsersPermissionsCache role (w\<lparr>w_db := d'\<rparr>))"
  using assms
  by (auto simp: RoleController_assignPermissions_def Let_def
      ok_response_def not_found_response_def validation_response_def internal_response_def
      split: list.splits prod.splits sum.splits error.splits option.splits)

lemma sync_permissions_ids:
  "{pid. (rid, pid) \<in> set (sync_permissions rid ids pivot)} = set ids"
  by (auto simp: sync_permissions_def Let_def unique_keys [of id, simplified])

lemma validate_permission_ids_ok:
  assumes "validate_permission_ids ids d = []"
  shows "set ids \<subseteq> p_id ` set (permissions d)"
proof
  fix pid assume "pid \<in> set ids"
  then obtain i where i: "i < length ids" "ids ! i = pid" by (auto simp: in_set_conv_nth)
  then have z: "(i, pid) \<in> set (zip [0 ..< length ids] ids)"
    by (auto simp: in_set_zip intro!: exI [of _ i])
  from assms i(1) have "\<forall>x \<in> set (zip [0 ..< length ids] ids).
      list_ex (\<lambda>p. p_id p = snd x) (permissions d)"
    by (auto simp: validate_permission_ids_def split: if_splits)
  with z have "list_ex (\<lambda>p. p_id p = pid) (permissions d)" by fastforce
  then show "pid \<in> p_id ` set (permissions d)" by (auto simp: list_ex_iff)
qed

lemma role_permissions_ids:
  "p_id ` set (role_permissions d rid)
     = {pid. (rid, pid) \<in> set (permission_role d)} \<inter> p_id ` set (permissions d)"
  by (auto simp: role_permissions_def)

lemma assign_cached:
  "RoleController_assignPermissions (Some [1]) None 2 cached_world
     = (ok_response 200 ''Permissions assigned successfully.'' (Some (editor, [users_view])),
        \<lparr>w_db = example_db\<lparr>permission_role := [(1, 1), (1, 2), (3, 1), (2, 1)]\<rparr>,
          w_cache = Map.empty\<rparr>)"
  by (simp add: cached_world_eq RoleController_assignPermissions_def requested_ids_def
      validate_permission_ids_def RoleService_assignPermissions_def
      RoleService_validatePermissionIds_def Role_find_def sync_permissions_def unique_def
      load_permissions_def role_permissions_def clearRoleUsersPermissionsCache_def
      clearUserPermissionsCache_def Cache_forget_def ex_defs key_eq_iff)

lemma assign_detached:
  "RoleController_assignPermissions (Some [1]) None 2 detached_world
     = (ok_response 200 ''Permissions assigned successfully.'' (Some (editor, [users_view])),
        \<lparr>w_db = example_db\<lparr>role_user := [(1, 1), (2, 1)],
                            permission_role := [(1, 1), (1, 2), (3, 1), (2, 1)]\<rparr>,
          w_cache = [getUserPermissionsCacheKey 2 \<mapsto> (3700, [''users.edit'', ''roles.view''])]\<rparr>)"
  by (simp add: detached_world_eq cached_world_eq RoleController_assignPermissions_def
      requested_ids_def
      validate_permission_ids_def RoleService_assignPermissions_def
      RoleService_validatePermissionIds_def Role_find_def sync_permissions_def unique_def
      load_permissions_def role_permissions_def clearRoleUsersPermissionsCache_def
      clearUserPermissionsCache_def Cache_forget_def ex_defs key_eq_iff fun_upd_twist)

text \<open>
  Claim C4. When \<open>POST /api/roles/{role}/permissions\<close> succeeds, then for every user
  attached to the role the permission cache holds no entry when the call returns, so the
  user's next \<open>userHasPermission\<close>, at any time, is answered from the store as the call
  left it: it is \<open>in_array\<close> of the checked string in the names of the user's
  effective permissions there, which for a string without a digit (every seeded
  permission name) is membership. In that store the role's permissions are exactly the
  requested ones, and all of them are among the user's effective permissions.
\<close>

theorem assignPermissions_cache_coherent:
  assumes ok: "RoleController_assignPermissions ip ipi role w = (resp, w')"
    and st: "jr_status resp = 200"
    and att: "(role, u_id user) \<in> set (role_user (w_db w'))"
  shows "w_cache w' (getUserPermissionsCacheKey (u_id user)) = None
    \<and> fst (userHasPermission numeric_eq now user permission w')
        = in_array numeric_eq permission (map p_name (getUserPermissions (w_db w') user))
    \<and> (\<not> has_digit permission \<longrightarrow>
         fst (userHasPermission numeric_eq now user permission w')
           = (permission \<in> p_name ` set (getUserPermissions (w_db w') user)))
    \<and> p_id ` set (role_permissions (w_db w') role) = set (requested_ids ip ipi)
    \<and> set (requested_ids ip ipi) \<subseteq> p_id ` set (getUserPermissions (w_db w') user)"
proof -
  let ?ids = "requested_ids ip ipi"
  from controller_assign_success [OF ok st] obtain rd d'
    where svc: "RoleService_assignPermissions role ?ids (w_db w) = (Inr rd, d')"
      and w': "w' = clearRoleUsersPermissionsCache role (w\<lparr>w_db := d'\<rparr>)" by blast
  from service_assign_success [OF svc] obtain r
    where d': "d' = (w_db w)\<lparr>permission_role := sync_permissions role ?ids (permission_role (w_db w))\<rparr>"
      and r: "Role_find (w_db w) role = Some r" by blast
  have db: "w_db w' = d'" by (simp add: w' clear_db)
  have none: "w_cache w' (getUserPermissionsCacheKey (u_id user)) = None"
    using att by (auto simp: w' clear_cache_entry clear_db)
  have valid: "validate_permission_ids ?ids (w_db w) = []"
    using controller_assign_success [OF ok st] by blast
  have exist: "set ?ids \<subseteq> p_id ` set (permissions (w_db w))"
    using valid by (rule validate_permission_ids_ok)
  have "{pid. (role, pid) \<in> set (permission_role d')} = set ?ids"
    by (simp add: d' sync_permissions_ids)
  then have ids: "p_id ` set (role_permissions d' role) = set ?ids"
    using exist by (auto simp: role_permissions_ids d')
  have "r \<in> set (user_roles d' (u_id user))"
    using att Role_find_id [OF r] Role_find_mem [OF r] by (auto simp: user_roles_def db d')
  then have "p_id ` set (role_permissions d' role) \<subseteq> p_id ` set (getUserPermissions d' user)"
    using Role_find_id [OF r] by (auto simp: getUserPermissions_def unique_keys)
  with ids none db show ?thesis
    by (simp add: miss_computes in_array_exact)
qed

theorem assignPermissions_cache_coherent_witness:
  "jr_status (fst (RoleController_assignPermissions (Some [1]) None 2 cached_world)) = 200
   \<and> (2, u_id bob) \<in> set (role_user (w_db (snd
        (RoleController_assignPermissions (Some [1]) None 2 cached_world))))
   \<and> w_cache cached_world (getUserPermissionsCacheKey (u_id bob))
       = Some (3700, [''users.edit'', ''roles.view''])
   \<and> w_cache (snd (RoleController_assignPermissions (Some [1]) None 2 cached_world))
        (getUserPermissionsCacheKey (u_id bob)) = None
   \<and> \<not> has_digit ''roles.view'' \<and> \<not> has_digit ''users.view''
   \<and> fst (userHasPermission example_numeric_eq 200 bob ''roles.view''
        (snd (RoleController_assignPermissions (Some [1]) None 2 cached_world))) = False
   \<and> fst (userHasPermission example_numeric_eq 200 bob ''users.view''
        (snd (RoleController_assignPermissions (Some [1]) None 2 cached_world))) = True"
proof -
  let ?R = "RoleController_assignPermissions (Some [1]) None 2 cached_world"
  have ok: "?R = (fst ?R, snd ?R)" by simp
  have st: "jr_status (fst ?R) = 200"
    by (simp only: assign_cached) (simp add: ok_response_def)
  have att: "(2, u_id bob) \<in> set (role_user (w_db (snd ?R)))"
    by (simp only: assign_cached) (simp add: ex_defs)
  have before: "w_cache cached_world (getUserPermissionsCacheKey (u_id bob))
       = Some (3700, [''users.edit'', ''roles.view''])"
    by (simp add: cached_world_eq bob_def key_eq_iff)
  have perms: "getUserPermissions (w_db (snd ?R)) bob = [users_view]"
    by (simp only: assign_cached)
      (simp add: getUserPermissions_def user_roles_def role_permissions_def unique_def ex_defs)
  from assignPermissions_cache_coherent [OF ok st att, of example_numeric_eq 200 "''roles.view''"]
    assignPermissions_cache_coherent [OF ok st att, of example_numeric_eq 200 "''users.view''"]
  show ?thesis using st att before perms by (simp add: users_view_def in_array_exact)
qed

text \<open>
  Claim C10. \<open>clearRoleUsersPermissionsCache\<close> leaves the store alone and evicts the
  permission-cache entry of a user exactly when the user is attached to the role in
  \<open>role_user\<close> at the moment of the call; a key that is no user's permission key is
  left as it is. In a successful \<open>assignPermissions\<close> request it runs on the store after
  the role's permission sync, which does not change \<open>role_user\<close>; so a user who is
  not attached to the role then, for instance one detached just before, keeps the cache
  entry and with it the permissions cached there, until the entry expires.
\<close>

theorem clearRoleUsers_evicts_exactly_members:
  "w_db (clearRoleUsersPermissionsCache roleId w) = w_db w
   \<and> w_cache (clearRoleUsersPermissionsCache roleId w) (getUserPermissionsCacheKey uid)
       = (if (roleId, uid) \<in> set (role_user (w_db w)) then None
          else w_cache w (getUserPermissionsCacheKey uid))
   \<and> (k \<notin> range getUserPermissionsCacheKey \<longrightarrow>
        w_cache (clearRoleUsersPermissionsCache roleId w) k = w_cache w k)
   \<and> (RoleController_assignPermissions ip ipi roleId w = (resp, w') \<longrightarrow> jr_status resp = 200 \<longrightarrow>
        w' = clearRoleUsersPermissionsCache roleId
               (w\<lparr>w_db := (w_db w)\<lparr>permission_role :=
                    sync_permissions roleId (requested_ids ip ipi) (permission_role (w_db w))\<rparr>\<rparr>)
        \<and> role_user (w_db w') = role_user (w_db w)
        \<and> ((roleId, uid) \<notin> set (role_user (w_db w)) \<longrightarrow>
             w_cache w' (getUserPermissionsCacheKey uid)
               = w_cache w (getUserPermissionsCacheKey uid)))"
proof (intro conjI impI)
  show "w_db (clearRoleUsersPermissionsCache roleId w) = w_db w" by (rule clear_db)
  show "w_cache (clearRoleUsersPermissionsCache roleId w) (getUserPermissionsCacheKey uid)
       = (if (roleId, uid) \<in> set (role_user (w_db w)) then None
          else w_cache w (getUserPermissionsCacheKey uid))"
    by (auto simp: clear_cache_entry dest: key_inj)
  show "w_cache (clearRoleUsersPermissionsCache roleId w) k = w_cache w k"
    if "k \<notin> range getUserPermissionsCacheKey"
    using that by (auto simp: clear_cache_entry)
next
  assume ok: "RoleController_assignPermissions ip ipi roleId w = (resp, w')"
    and st: "jr_status resp = 200"
  from controller_assign_success [OF ok st] obtain rd d'
    where svc: "RoleService_assignPermissions roleId (requested_ids ip ipi) (w_db w) = (Inr rd, d')"
      and w': "w' = clearRoleUsersPermissionsCache roleId (w\<lparr>w_db := d'\<rparr>)" by blast
  from service_assign_success [OF svc]
  have d': "d' = (w_db w)\<lparr>permission_role :=
      sync_permissions roleId (requested_ids ip ipi) (permission_role (w_db w))\<rparr>" by blast
  show "w' = clearRoleUsersPermissionsCache roleId
               (w\<lparr>w_db := (w_db w)\<lparr>permission_role :=
                    sync_permissions roleId (requested_ids ip ipi) (permission_role (w_db w))\<rparr>\<rparr>)"
    by (simp add: w' d')
  show "role_user (w_db w') = role_user (w_db w)"
    by (simp add: w' d' clear_db)
  show "w_cache w' (getUserPermissionsCacheKey uid) = w_cache w (getUserPermissionsCacheKey uid)"
    if "(roleId, uid) \<notin> set (role_user (w_db w))"
    using that by (auto simp: w' d' clear_cache_entry dest: key_inj)
qed

theorem clearRoleUsers_evicts_exactly_members_witness:
  "jr_status (fst (RoleController_assignPermissions (Some [1]) None 2 detached_world)) = 200
   \<and> (2, 1) \<in> set (role_user (w_db detached_world))
   \<and> (2, 2) \<notin> set (role_user (w_db detached_world))
   \<and> w_cache (snd (RoleController_assignPermissions (Some [1]) None 2 detached_world))
        (getUserPermissionsCacheKey 1) = None
   \<and> w_cache (snd (RoleController_assignPermissions (Some [1]) None 2 detached_world))
        (getUserPermissionsCacheKey 2) = Some (3700, [''users.edit'', ''roles.view''])
   \<and> getUserPermissions (w_db (snd
        (RoleController_assignPermissions (Some [1]) None 2 detached_world))) bob = []
   \<and> fst (userHasPermission example_numeric_eq 200 bob ''roles.view''
        (snd (RoleController_assignPermissions (Some [1]) None 2 detached_world))) = True"
proof -
  let ?R = "RoleController_assignPermissions (Some [1]) None 2 detached_world"
  have ok: "?R = (fst ?R, snd ?R)" by simp
  have st: "jr_status (fst ?R) = 200"
    by (simp only: assign_detached) (simp add: ok_response_def)
  have mem: "(2, 1) \<in> set (role_user (w_db detached_world))"
    and non: "(2, 2) \<notin> set (role_user (w_db detached_world))"
    by (simp_all add: detached_world_eq)
  have before: "w_cache detached_world (getUserPermissionsCacheKey 2)
       = Some (3700, [''users.edit'', ''roles.view''])"
    by (simp add: detached_world_eq cached_world_eq key_eq_iff)
  have perms: "getUserPermissions (w_db (snd ?R)) bob = []"
    by (simp only: assign_detached)
      (simp add: getUserPermissions_def user_roles_def role_permissions_def unique_def ex_defs)
  have evicted: "w_cache (snd ?R) (getUserPermissionsCacheKey 1) = None"
    by (simp only: assign_detached) (simp add: key_eq_iff)
  have stale: "fst (userHasPermission example_numeric_eq 200 bob ''roles.view'' (snd ?R)) = True"
    by (simp only: assign_detached)
      (simp add: userHasPermission_def Cache_remember_def Cache_get_def bob_def in_array_exact)
  have kept: "w_cache (snd ?R) (getUserPermissionsCacheKey 2)
       = w_cache detached_world (getUserPermissionsCacheKey 2)"
    using clearRoleUsers_evicts_exactly_members [where roleId = 2 and w = detached_world
      and uid = 2 and k = "[]" and ip = "Some [1]" and ipi = None and resp = "fst ?R"
      and w' = "snd ?R"] ok st non
    by blast
  show ?thesis using st mem non perms evicted stale kept [unfolded before] by simp
qed

end
